theory Spec2Isabelle
  imports Complex_Main
begin

section \<open>Data model of \<open>animatedGifTexture.ts\<close>\<close>

text \<open>
  JavaScript numbers that come out of a division. Finite values are kept as exact
  rationals (rounding to double and to the 32-bit entries of a \<open>Float32Array\<close> is not
  modelled); the three non-finite results of a division by zero are kept apart.
\<close>

datatype jsnum = Num rat | NaN | PosInfinity | NegInfinity

definition js_div :: "rat \<Rightarrow> rat \<Rightarrow> jsnum" where
  "js_div a b =
     (if b \<noteq> 0 then Num (a / b)
      else if a = 0 then NaN
      else if 0 < a then PosInfinity
      else NegInfinity)"

text \<open>\<open>GifFrame.dims\<close>: the four fields are unsigned pixel counts of the Gif file.\<close>

record Dims =
  width :: nat
  height :: nat
  top_d :: nat
  left :: nat

text \<open>
  A raw RGBA texture as \<open>createRawTexture\<close> is asked to build it: its size and the
  bytes it was given, four per texel, first row first.
\<close>

record InternalTexture =
  tex_width :: nat
  tex_height :: nat
  tex_data :: "nat list"

text \<open>
  A frame as \<open>decompressFrames\<close> returns it (\<open>dims\<close>, \<open>patch\<close>, \<open>delay\<close>), and the
  same frame once \<open>_createGifResources\<close> has filled in \<open>texture\<close> and \<open>worldMatrix\<close>.
  \<open>worldMatrix\<close> is the \<open>Float32Array\<close> of nine entries in the order the source
  writes them.
\<close>

record DecodedFrame =
  dims :: Dims
  patch :: "nat list"
  delay :: rat

record GifFrame = DecodedFrame +
  texture :: InternalTexture
  worldMatrix :: "jsnum list"

type_synonym vec4 = "rat \<times> rat \<times> rat \<times> rat"

text \<open>
  The render target holding the final Gif: its size and its pixels, addressed by column
  and by row counted from the bottom, as the GL window coordinates are.
\<close>

record RenderTarget =
  rt_width :: nat
  rt_height :: nat
  pixels :: "nat \<Rightarrow> nat \<Rightarrow> vec4"

text \<open>The calls that stop or release something, in the order they are issued.\<close>

datatype release =
    ReleasePlaceholder
  | StopRenderLoop
  | DisposeEffectWrapper
  | DisposeEffectRenderer
  | DisposePatchTexture nat
  | DisposeRenderTarget
  | DisposeBaseTexture

text \<open>
  The fields of the class. \<open>onLoad\<close> tells whether a callback was supplied and
  \<open>onLoadCalls\<close> counts its invocations; \<open>isReady\<close> is \<open>_texture.isReady\<close>;
  \<open>texWidth\<close> and \<open>texHeight\<close> are the size of \<open>_texture\<close>;
  \<open>renderLoopRegistered\<close> tells whether the render loop callback is registered with the
  engine; \<open>drawLog\<close> lists the frames handed to \<open>EffectRenderer.render\<close> and
  \<open>released\<close> lists the release calls. \<open>None\<close> stands for \<open>null\<close> and \<open>undefined\<close>.
\<close>

record AnimatedGifTexture =
  onLoad :: bool
  onLoadCalls :: nat
  frames :: "GifFrame list option"
  currentFrame :: "GifFrame option"
  nextFrameIndex :: nat
  previousDate :: "rat option"
  isReady :: bool
  texWidth :: nat
  texHeight :: nat
  renderTarget :: "RenderTarget option"
  renderLoopRegistered :: bool
  drawLog :: "GifFrame list"
  released :: "release list"

text \<open>
  The two \<open>TypeError\<close>s the class can run into: iterating \<open>null\<close>, and reading a
  property of \<open>null\<close> or \<open>undefined\<close>. An exception leaves the object as it was
  mutated so far, so a failure carries that state.
\<close>

datatype error = NotIterable | UndefinedRead

type_synonym outcome = "(error \<times> AnimatedGifTexture) + AnimatedGifTexture"

text \<open>
  What one run of the render loop callback reads from its environment: the two values of
  \<open>PrecisionDate.Now\<close> (in the guard, and after the draw), whether the effect is
  compiled, and the value of the \<open>color\<close> uniform, which the class never assigns.
\<close>

record Tick =
  nowGuard :: rat
  nowRecord :: rat
  effectReady :: bool
  color :: vec4

section \<open>The shaders and the draw of one patch\<close>

definition createRawTexture :: "nat list \<Rightarrow> nat \<Rightarrow> nat \<Rightarrow> InternalTexture" where
  "createRawTexture data w h = \<lparr>tex_width = w, tex_height = h, tex_data = data\<rparr>"

definition texel_byte :: "InternalTexture \<Rightarrow> nat \<Rightarrow> rat" where
  "texel_byte t k = (if k < length (tex_data t) then of_nat (tex_data t ! k) / 255 else 0)"

definition clamp_index :: "nat \<Rightarrow> int \<Rightarrow> nat" where
  "clamp_index n k = nat (max 0 (min (int n - 1) k))"

text \<open>
  \<open>texture2D\<close> on a patch texture: nearest sampling, clamped addressing, and rows
  inverted on upload (\<open>invertY = true\<close>), so that the first row of the data is the top
  row of the texture.
\<close>

definition texture2D :: "InternalTexture \<Rightarrow> rat \<times> rat \<Rightarrow> vec4" where
  "texture2D t uv =
     (let i = clamp_index (tex_width t) \<lfloor>fst uv * of_nat (tex_width t)\<rfloor>;
          j = clamp_index (tex_height t) \<lfloor>snd uv * of_nat (tex_height t)\<rfloor>;
          row = tex_height t - 1 - j;
          k = 4 * (row * tex_width t + i)
      in (texel_byte t k, texel_byte t (k + 1), texel_byte t (k + 2), texel_byte t (k + 3)))"

definition alpha :: "vec4 \<Rightarrow> rat" where
  "alpha c = snd (snd (snd c))"

definition vec4_mult :: "vec4 \<Rightarrow> vec4 \<Rightarrow> vec4" where
  "vec4_mult a b =
     (case a of (ar, ag, ab, aa) \<Rightarrow> case b of (br, bg, bb, ba) \<Rightarrow>
        (ar * br, ag * bg, ab * bb, aa * ba))"

text \<open>The fragment shader; \<open>None\<close> is \<open>discard\<close>.\<close>

definition fragmentShader :: "vec4 \<Rightarrow> InternalTexture \<Rightarrow> rat \<times> rat \<Rightarrow> vec4 option" where
  "fragmentShader col textureSampler vUV =
     (let finalColor = vec4_mult (texture2D textureSampler vUV) col
      in if alpha col = 1 \<and> alpha finalColor = 0 then None else Some finalColor)"

text \<open>
  The \<open>world\<close> uniform as \<open>setMatrix3x3\<close> uploads it: nine finite floats, three per
  column.
\<close>

definition finite_num :: "jsnum \<Rightarrow> rat option" where
  "finite_num x = (case x of Num r \<Rightarrow> Some r | _ \<Rightarrow> None)"

type_synonym mat3 = "(rat \<times> rat \<times> rat) \<times> (rat \<times> rat \<times> rat) \<times> (rat \<times> rat \<times> rat)"

definition setMatrix3x3 :: "jsnum list \<Rightarrow> mat3 option" where
  "setMatrix3x3 m =
     (case those (map finite_num m) of
        Some [a0, a1, a2, a3, a4, a5, a6, a7, a8] \<Rightarrow> Some ((a0, a1, a2), (a3, a4, a5), (a6, a7, a8))
      | _ \<Rightarrow> None)"

text \<open>
  The vertex shader: \<open>vec3(position, 1) * world\<close> multiplies the row vector with each
  column, and the result goes from \<open>[0, 1]\<close> to clip space. The value is
  \<open>gl_Position.xy\<close>; \<open>vUV\<close> is \<open>position\<close> itself.
\<close>

definition vertexShader :: "mat3 \<Rightarrow> rat \<times> rat \<Rightarrow> rat \<times> rat" where
  "vertexShader world position =
     (case world of ((a0, a1, a2), (a3, a4, a5), (a6, a7, a8)) \<Rightarrow>
        case position of (x, y) \<Rightarrow>
          ((x * a0 + y * a1 + 1 * a2) * 2 - 1, (x * a3 + y * a4 + 1 * a5) * 2 - 1))"

text \<open>
  Rasterisation of the quad that \<open>_createRenderer\<close> gives to the effect renderer, the
  square with the corners \<open>(1, 1)\<close>, \<open>(0, 1)\<close>, \<open>(0, 0)\<close> and \<open>(1, 0)\<close>: a
  fragment is generated for a pixel when the centre of the pixel is the image of a point
  of the quad under the vertex shader, and \<open>vUV\<close> is that point. \<open>quad_uv\<close> computes
  the point from the clip-space position of the centre; a quad flattened to a line
  generates no fragment.
\<close>

definition quad_uv :: "mat3 \<Rightarrow> rat \<times> rat \<Rightarrow> (rat \<times> rat) option" where
  "quad_uv world c =
     (case world of ((a0, a1, a2), (a3, a4, a5), (a6, a7, a8)) \<Rightarrow>
        case c of (cx, cy) \<Rightarrow>
          (let wx = (cx + 1) / 2 - a2; wy = (cy + 1) / 2 - a5; det = a0 * a4 - a1 * a3
           in if det = 0 then None
              else (let u = (wx * a4 - wy * a1) / det; v = (wy * a0 - wx * a3) / det
                    in if 0 \<le> u \<and> u \<le> 1 \<and> 0 \<le> v \<and> v \<le> 1 then Some (u, v) else None)))"

definition pixel_center :: "nat \<Rightarrow> nat \<Rightarrow> nat \<Rightarrow> nat \<Rightarrow> rat \<times> rat" where
  "pixel_center w h px py =
     ((of_nat px + 1 / 2) / of_nat w * 2 - 1, (of_nat py + 1 / 2) / of_nat h * 2 - 1)"

text \<open>
  The value of \<open>vUV\<close> at which the fragment shader runs for pixel \<open>(px, py)\<close> of
  the render target when the quad is drawn with the frame's matrix, if a fragment is
  generated there. The viewport is the whole render target, and a matrix with a
  non-finite entry generates nothing.
\<close>

definition fragment_uv :: "GifFrame \<Rightarrow> RenderTarget \<Rightarrow> nat \<Rightarrow> nat \<Rightarrow> (rat \<times> rat) option" where
  "fragment_uv frame rt px py =
     (if px < rt_width rt \<and> py < rt_height rt then
        (case setMatrix3x3 (worldMatrix frame) of
           None \<Rightarrow> None
         | Some world \<Rightarrow> quad_uv world (pixel_center (rt_width rt) (rt_height rt) px py))
      else None)"

text \<open>The colour written to the pixel by that draw, if any.\<close>

definition fragment :: "vec4 \<Rightarrow> GifFrame \<Rightarrow> RenderTarget \<Rightarrow> nat \<Rightarrow> nat \<Rightarrow> vec4 option" where
  "fragment col frame rt px py =
     (case fragment_uv frame rt px py of
        None \<Rightarrow> None
      | Some vUV \<Rightarrow> fragmentShader col (texture frame) vUV)"

text \<open>
  \<open>EffectRenderer.render\<close> onto the render target: nothing is cleared, and each
  fragment that is not discarded replaces the pixel it falls on.
\<close>

definition render :: "vec4 \<Rightarrow> GifFrame \<Rightarrow> RenderTarget \<Rightarrow> RenderTarget" where
  "render col frame rt =
     rt\<lparr>pixels := (\<lambda>px py. case fragment col frame rt px py of
                               None \<Rightarrow> pixels rt px py
                             | Some c \<Rightarrow> c)\<rparr>"

section \<open>The class\<close>

text \<open>
  The constructor: \<open>_createInternalTexture\<close> makes the 1 by 1 placeholder and marks it
  not ready; the Gif is loaded later, through \<open>loadCallback\<close>.
\<close>

definition new_AnimatedGifTexture :: "bool \<Rightarrow> AnimatedGifTexture" where
  "new_AnimatedGifTexture cb =
     \<lparr>onLoad = cb, onLoadCalls = 0, frames = None, currentFrame = None,
      nextFrameIndex = 0, previousDate = None, isReady = False,
      texWidth = 1, texHeight = 1, renderTarget = None,
      renderLoopRegistered = False, drawLog = [], released = []\<rparr>"

text \<open>
  The body of the loop of \<open>_createGifResources\<close> for one frame; \<open>canvas\<close> is
  \<open>this._frames[0].dims\<close>.
\<close>

definition frameResources :: "Dims \<Rightarrow> DecodedFrame \<Rightarrow> GifFrame" where
  "frameResources canvas frame =
     (let sx = js_div (of_nat (width (dims frame))) (of_nat (width canvas));
          sy = js_div (of_nat (height (dims frame))) (of_nat (height canvas));
          tx = js_div (of_nat (left (dims frame))) (of_nat (width canvas));
          ty = js_div (of_nat (height canvas)
                         - (of_nat (top_d (dims frame)) + of_nat (height (dims frame))))
                      (of_nat (height canvas))
      in \<lparr>dims = dims frame, patch = patch frame, delay = delay frame,
          texture = createRawTexture (patch frame) (width (dims frame)) (height (dims frame)),
          worldMatrix = [sx, Num 0, tx,
                         Num 0, sy, ty,
                         Num 0, Num 0, Num 1]\<rparr>)"

definition createRenderTargetTexture :: "Dims \<Rightarrow> RenderTarget" where
  "createRenderTargetTexture d =
     \<lparr>rt_width = width d, rt_height = height d, pixels = (\<lambda>px py. (0, 0, 0, 0))\<rparr>"

text \<open>
  \<open>_parseGifData\<close> followed by \<open>_createGifResources\<close>, on the frames that the Gif
  library decoded: the frames are stored, the loop fills in the texture and the matrix
  of each one, the render target is made with the size of the first frame, the
  placeholder is released and the render target's texture takes its place, not ready
  yet. With no frame the loop does nothing and reading \<open>this._frames[0].dims\<close>
  throws.
\<close>

definition createGifResources :: "DecodedFrame list \<Rightarrow> AnimatedGifTexture \<Rightarrow> outcome" where
  "createGifResources decoded s =
     (case decoded of
        [] \<Rightarrow> Inl (UndefinedRead, s\<lparr>frames := Some []\<rparr>)
      | first # _ \<Rightarrow>
          Inr (s\<lparr>frames := Some (map (frameResources (dims first)) decoded),
                 renderTarget := Some (createRenderTargetTexture (dims first)),
                 released := released s @ [ReleasePlaceholder],
                 texWidth := width (dims first),
                 texHeight := height (dims first),
                 isReady := False\<rparr>))"

text \<open>The callback of \<open>_loadGifTexture\<close>, run when the file has been read.\<close>

definition loadCallback :: "DecodedFrame list \<Rightarrow> AnimatedGifTexture \<Rightarrow> outcome" where
  "loadCallback decoded s =
     (case createGifResources decoded s of
        Inl e \<Rightarrow> Inl e
      | Inr s1 \<Rightarrow> Inr (s1\<lparr>renderLoopRegistered := True\<rparr>))"

text \<open>
  \<open>_drawPatch\<close>. Nothing happens while the effect is not compiled. Otherwise the
  current frame is rendered onto the render target with its matrix and its texture
  bound (reading them from a missing current frame throws), and the first draw marks
  the texture ready and runs the callback, if there is one. Between the constructor and
  the load callback there is no render target, and the draw leaves the fields of the
  class as they are.
\<close>

definition drawPatch :: "Tick \<Rightarrow> AnimatedGifTexture \<Rightarrow> outcome" where
  "drawPatch env s =
     (if \<not> effectReady env then Inr s
      else (case currentFrame s of
              None \<Rightarrow> Inl (UndefinedRead, s)
            | Some frame \<Rightarrow>
                (let s1 = s\<lparr>renderTarget := map_option (render (color env) frame) (renderTarget s),
                            drawLog := drawLog s @ [frame]\<rparr>
                 in if \<not> isReady s1
                    then Inr (s1\<lparr>isReady := True,
                                 onLoadCalls := (if onLoad s1 then onLoadCalls s1 + 1
                                                 else onLoadCalls s1)\<rparr>)
                    else Inr s1)))"

text \<open>
  \<open>_renderFrame\<close>: the guard that keeps the current frame, and the rest of the
  function, which replaces the current frame, draws it, records the time and moves the
  next frame index.
\<close>

definition keepCurrentFrame :: "Tick \<Rightarrow> AnimatedGifTexture \<Rightarrow> bool" where
  "keepCurrentFrame env s =
     (case currentFrame s of
        None \<Rightarrow> False
      | Some frame \<Rightarrow>
          (case previousDate s of
             None \<Rightarrow> False
           | Some previous \<Rightarrow> nowGuard env - previous < delay frame))"

definition replaceCurrentFrame :: "Tick \<Rightarrow> AnimatedGifTexture \<Rightarrow> outcome" where
  "replaceCurrentFrame env s =
     (case frames s of
        None \<Rightarrow> Inl (UndefinedRead, s)
      | Some fs \<Rightarrow>
          (let s1 = s\<lparr>currentFrame := (if nextFrameIndex s < length fs
                                         then Some (fs ! nextFrameIndex s) else None)\<rparr>
           in case drawPatch env s1 of
                Inl e \<Rightarrow> Inl e
              | Inr s2 \<Rightarrow>
                  (let s3 = s2\<lparr>previousDate := Some (nowRecord env)\<rparr>;
                       i = nextFrameIndex s3 + 1
                   in Inr (s3\<lparr>nextFrameIndex := (if i \<ge> length fs then 0 else i)\<rparr>))))"

definition renderFrame :: "Tick \<Rightarrow> AnimatedGifTexture \<Rightarrow> outcome" where
  "renderFrame env s = (if keepCurrentFrame env s then Inr s else replaceCurrentFrame env s)"

text \<open>Successive runs of the render loop callback, stopping at the first exception.\<close>

fun renderLoop :: "Tick list \<Rightarrow> AnimatedGifTexture \<Rightarrow> outcome" where
  "renderLoop [] s = Inr s"
| "renderLoop (env # envs) s =
     (case renderFrame env s of Inl e \<Rightarrow> Inl e | Inr s1 \<Rightarrow> renderLoop envs s1)"

text \<open>The same with the guard left out: each run replaces the current frame.\<close>

fun replaceFrames :: "Tick list \<Rightarrow> AnimatedGifTexture \<Rightarrow> outcome" where
  "replaceFrames [] s = Inr s"
| "replaceFrames (env # envs) s =
     (case replaceCurrentFrame env s of Inl e \<Rightarrow> Inl e | Inr s1 \<Rightarrow> replaceFrames envs s1)"

text \<open>
  \<open>dispose\<close>: the calls it issues are appended to \<open>released\<close>, the last one
  being \<open>super.dispose()\<close>. The loop over \<open>this._frames\<close> throws on \<open>null\<close>,
  and \<open>this._renderTarget.dispose()\<close> throws while there is no render target.
\<close>

definition dispose :: "AnimatedGifTexture \<Rightarrow> outcome" where
  "dispose s =
     (let s1 = s\<lparr>renderLoopRegistered := False,
                 released := released s
                   @ [StopRenderLoop, DisposeEffectWrapper, DisposeEffectRenderer]\<rparr>
      in case frames s1 of
           None \<Rightarrow> Inl (NotIterable, s1)
         | Some fs \<Rightarrow>
             (let s2 = s1\<lparr>released := released s1 @ map DisposePatchTexture [0..<length fs]\<rparr>
              in case renderTarget s2 of
                   None \<Rightarrow> Inl (UndefinedRead, s2)
                 | Some rt \<Rightarrow>
                     Inr (s2\<lparr>released := released s2
                               @ [DisposeRenderTarget, DisposeBaseTexture]\<rparr>)))"

section \<open>Notions used by the properties\<close>

text \<open>The object after a call, whether the call returned or threw.\<close>

definition state_of :: "outcome \<Rightarrow> AnimatedGifTexture" where
  "state_of r = (case r of Inl (e, s) \<Rightarrow> s | Inr s \<Rightarrow> s)"

text \<open>
  A texture whose Gif has been loaded: the frames are there and the next frame index
  points into them.
\<close>

definition playing :: "GifFrame list \<Rightarrow> AnimatedGifTexture \<Rightarrow> bool" where
  "playing fs s = (frames s = Some fs \<and> nextFrameIndex s < length fs)"

text \<open>
  A playing texture whose frames were built for the given canvas, whose render target
  has the size of that canvas, and whose current frame, if any, is one of the frames.
\<close>

definition onCanvas :: "Dims \<Rightarrow> DecodedFrame list \<Rightarrow> AnimatedGifTexture \<Rightarrow> bool" where
  "onCanvas canvas decoded s =
     (playing (map (frameResources canvas) decoded) s
      \<and> (case renderTarget s of
            None \<Rightarrow> False
          | Some rt \<Rightarrow> rt_width rt = width canvas \<and> rt_height rt = height canvas)
      \<and> (case currentFrame s of
            None \<Rightarrow> True
          | Some g \<Rightarrow> g \<in> frameResources canvas ` set decoded))"


text \<open>
  The readiness flag is set exactly when a draw has been issued, and the callback, if
  there is one, has run once exactly when the flag is set.
\<close>

definition readyOnce :: "AnimatedGifTexture \<Rightarrow> bool" where
  "readyOnce s = ((isReady s \<longleftrightarrow> drawLog s \<noteq> [])
                  \<and> onLoadCalls s = (if onLoad s \<and> isReady s then 1 else 0))"



text \<open>\<open>a\<close> is issued before \<open>b\<close> in a list of release calls.\<close>

definition issuedBefore :: "release \<Rightarrow> release \<Rightarrow> release list \<Rightarrow> bool" where
  "issuedBefore a b calls = (b \<in> set calls \<and> a \<in> set (takeWhile (\<lambda>x. x \<noteq> b) calls))"

section \<open>Sample inputs\<close>

text \<open>
  A Gif of two frames on a canvas of 2 by 2 pixels: an opaque frame that fills the
  canvas, and a patch of one transparent pixel in the upper right corner.
\<close>

definition frameA :: DecodedFrame where
  "frameA = \<lparr>dims = \<lparr>width = 2, height = 2, top_d = 0, left = 0\<rparr>,
             patch = [255, 0, 0, 255, 0, 255, 0, 255, 0, 0, 255, 255, 9, 9, 9, 255],
             delay = 100\<rparr>"

definition frameB :: DecodedFrame where
  "frameB = \<lparr>dims = \<lparr>width = 1, height = 1, top_d = 0, left = 1\<rparr>,
             patch = [7, 7, 7, 0],
             delay = 50\<rparr>"

definition sampleGif :: "DecodedFrame list" where
  "sampleGif = [frameA, frameB]"

definition sampleLoaded :: AnimatedGifTexture where
  "sampleLoaded = state_of (loadCallback sampleGif (new_AnimatedGifTexture True))"

definition tick :: "rat \<Rightarrow> bool \<Rightarrow> Tick" where
  "tick t ready = \<lparr>nowGuard = t, nowRecord = t, effectReady = ready, color = (1, 1, 1, 1)\<rparr>"


text \<open>The sample Gif after a first run of the render loop callback, at time 0.\<close>

definition samplePlaying :: AnimatedGifTexture where
  "samplePlaying = state_of (renderFrame (tick 0 True) sampleLoaded)"


definition sampleTarget :: RenderTarget where
  "sampleTarget = render (1, 1, 1, 1) (frameResources (dims frameA) frameA)
                    (createRenderTargetTexture (dims frameA))"

section \<open>Basic facts\<close>

lemmas sample_defs = sampleLoaded_def sampleGif_def state_of_def loadCallback_def
  createGifResources_def new_AnimatedGifTexture_def tick_def

lemmas run_defs = renderFrame_def keepCurrentFrame_def replaceCurrentFrame_def
  drawPatch_def Let_def

lemma delay_frameResources: "delay (frameResources c f) = delay f"
  by (simp add: frameResources_def Let_def)



lemma loadCallback_nonempty:
  "loadCallback (first # rest) s
     = Inr (s\<lparr>frames := Some (map (frameResources (dims first)) (first # rest)),
              renderTarget := Some (createRenderTargetTexture (dims first)),
              released := released s @ [ReleasePlaceholder],
              texWidth := width (dims first),
              texHeight := height (dims first),
              isReady := False,
              renderLoopRegistered := True\<rparr>)"
  by (simp add: loadCallback_def createGifResources_def)

lemma sampleLoaded_eq:
  "loadCallback sampleGif (new_AnimatedGifTexture True) = Inr sampleLoaded"
  by (simp add: sample_defs)

lemma samplePlaying_eq:
  "samplePlaying
     = sampleLoaded\<lparr>currentFrame := Some (frameResources (dims frameA) frameA),
                     renderTarget := Some sampleTarget,
                     drawLog := [frameResources (dims frameA) frameA],
                     isReady := True, onLoadCalls := 1,
                     previousDate := Some 0, nextFrameIndex := 1\<rparr>"
  by (simp add: samplePlaying_def sampleTarget_def sample_defs run_defs)

lemma playing_samplePlaying:
  "playing (map (frameResources (dims frameA)) sampleGif) samplePlaying"
  by (simp add: samplePlaying_eq) (simp add: sample_defs playing_def)

section \<open>The scheduler\<close>

lemma next_index_mod:
  fixes i n :: nat
  assumes "i < n"
  shows "(if n \<le> i + 1 then 0 else i + 1) = (i + 1) mod n"
proof (cases "n \<le> i + 1")
  case True
  with assms have "i + 1 = n" by arith
  then show ?thesis by simp
next
  case False
  then show ?thesis by simp
qed

text \<open>With a current frame, \<open>_drawPatch\<close> returns, and only draws.\<close>

lemma drawPatch_returns:
  assumes "currentFrame s = Some f" and "readyOnce s"
  shows "\<exists>s'. drawPatch env s = Inr s' \<and> readyOnce s' \<and> (isReady s \<longrightarrow> isReady s')
            \<and> onLoad s' = onLoad s \<and> frames s' = frames s
            \<and> nextFrameIndex s' = nextFrameIndex s \<and> currentFrame s' = currentFrame s"
  using assms by (auto simp add: drawPatch_def Let_def readyOnce_def)

lemma drawPatch_scheduler:
  assumes "currentFrame s = Some f"
  shows "\<exists>s'. drawPatch env s = Inr s' \<and> frames s' = frames s
            \<and> nextFrameIndex s' = nextFrameIndex s \<and> currentFrame s' = currentFrame s"
  using assms by (simp add: drawPatch_def Let_def)

text \<open>
  While the Gif plays, the replacement of the current frame returns: it is the draw of
  the next frame, followed by the two assignments.
\<close>

lemma replaceCurrentFrame_playing_eq:
  assumes "playing fs s"
  shows "\<exists>s2. drawPatch env (s\<lparr>currentFrame := Some (fs ! nextFrameIndex s)\<rparr>) = Inr s2
           \<and> replaceCurrentFrame env s
               = Inr (s2\<lparr>previousDate := Some (nowRecord env),
                          nextFrameIndex := (nextFrameIndex s + 1) mod length fs\<rparr>)"
proof -
  from assms have fr: "frames s = Some fs" and lt: "nextFrameIndex s < length fs"
    by (simp_all add: playing_def)
  let ?s1 = "s\<lparr>currentFrame := Some (fs ! nextFrameIndex s)\<rparr>"
  obtain s2 where d: "drawPatch env ?s1 = Inr s2"
    and n2: "nextFrameIndex s2 = nextFrameIndex ?s1"
    using drawPatch_scheduler [of ?s1 "fs ! nextFrameIndex s" env] by auto
  have m: "(if length fs \<le> nextFrameIndex s + 1 then 0 else nextFrameIndex s + 1)
             = (nextFrameIndex s + 1) mod length fs"
    using lt by (rule next_index_mod)
  have "replaceCurrentFrame env s
          = Inr (s2\<lparr>previousDate := Some (nowRecord env),
                     nextFrameIndex := (nextFrameIndex s + 1) mod length fs\<rparr>)"
  proof (cases "length fs \<le> nextFrameIndex s + 1")
    case True
    with m have "(nextFrameIndex s + 1) mod length fs = 0" by simp
    with True fr lt d n2 show ?thesis by (simp add: replaceCurrentFrame_def Let_def)
  next
    case False
    with m have "(nextFrameIndex s + 1) mod length fs = nextFrameIndex s + 1" by simp
    with False fr lt d n2 show ?thesis by (simp add: replaceCurrentFrame_def Let_def)
  qed
  with d show ?thesis by blast
qed

lemma replaceCurrentFrame_playing:
  assumes "playing fs s"
  shows "\<exists>s'. replaceCurrentFrame env s = Inr s' \<and> playing fs s'
           \<and> nextFrameIndex s' = (nextFrameIndex s + 1) mod length fs
           \<and> previousDate s' = Some (nowRecord env)
           \<and> currentFrame s' = Some (fs ! nextFrameIndex s)"
proof -
  from assms have fr: "frames s = Some fs" and lt: "nextFrameIndex s < length fs"
    by (simp_all add: playing_def)
  let ?s1 = "s\<lparr>currentFrame := Some (fs ! nextFrameIndex s)\<rparr>"
  from replaceCurrentFrame_playing_eq [OF assms, of env]
  obtain s2 where d: "drawPatch env ?s1 = Inr s2"
    and r: "replaceCurrentFrame env s
              = Inr (s2\<lparr>previousDate := Some (nowRecord env),
                         nextFrameIndex := (nextFrameIndex s + 1) mod length fs\<rparr>)"
    by blast
  from drawPatch_scheduler [of ?s1 "fs ! nextFrameIndex s" env] d
  have f2: "frames s2 = frames ?s1" and c2: "currentFrame s2 = currentFrame ?s1" by auto
  have b: "(nextFrameIndex s + 1) mod length fs < length fs"
    using lt by (intro mod_less_divisor) arith
  show ?thesis
    unfolding r using fr f2 c2 b by (simp add: playing_def)
qed

lemma replaceFrames_index:
  "playing fs s \<Longrightarrow> \<exists>s'. replaceFrames envs s = Inr s' \<and> playing fs s'
     \<and> nextFrameIndex s' = (nextFrameIndex s + length envs) mod length fs"
proof (induction envs arbitrary: s)
  case Nil
  then show ?case by (simp add: playing_def)
next
  case (Cons env envs)
  from replaceCurrentFrame_playing [OF Cons.prems, of env]
  obtain s1 where r: "replaceCurrentFrame env s = Inr s1" and p: "playing fs s1"
    and n: "nextFrameIndex s1 = (nextFrameIndex s + 1) mod length fs" by blast
  from Cons.IH [OF p] obtain s' where r': "replaceFrames envs s1 = Inr s'" and p': "playing fs s'"
    and n': "nextFrameIndex s' = (nextFrameIndex s1 + length envs) mod length fs" by blast
  have "(nextFrameIndex s1 + length envs) mod length fs
          = (nextFrameIndex s + length (env # envs)) mod length fs"
    unfolding n by (simp add: mod_simps)
  with r r' p' n' show ?case by simp
qed



text \<open>
  Claim C2. While a Gif of \<open>N\<close> frames plays, each replacement of the current frame
  takes the frame index \<open>i\<close> to \<open>(i + 1) mod N\<close>; from the last frame the index
  goes to 0; and \<open>N\<close> replacements in a row bring the index back to where it was.
\<close>

theorem C2_frame_index_cyclic:
  assumes "playing fs s"
  shows "(\<exists>s'. replaceCurrentFrame env s = Inr s'
            \<and> nextFrameIndex s' = (nextFrameIndex s + 1) mod length fs)
       \<and> (nextFrameIndex s = length fs - 1 \<longrightarrow>
            (\<exists>s'. replaceCurrentFrame env s = Inr s' \<and> nextFrameIndex s' = 0))
       \<and> (length envs = length fs \<longrightarrow>
            (\<exists>s'. replaceFrames envs s = Inr s' \<and> nextFrameIndex s' = nextFrameIndex s))"
proof (intro conjI impI)
  show a: "\<exists>s'. replaceCurrentFrame env s = Inr s'
            \<and> nextFrameIndex s' = (nextFrameIndex s + 1) mod length fs"
    using replaceCurrentFrame_playing [OF assms, of env] by blast
  from assms have lt: "nextFrameIndex s < length fs" by (simp add: playing_def)
  { assume "nextFrameIndex s = length fs - 1"
    with lt have "nextFrameIndex s + 1 = length fs" by arith
    then have "(nextFrameIndex s + 1) mod length fs = 0" by simp
    with a show "\<exists>s'. replaceCurrentFrame env s = Inr s' \<and> nextFrameIndex s' = 0" by auto }
  { assume "length envs = length fs"
    with replaceFrames_index [OF assms, of envs] lt
    show "\<exists>s'. replaceFrames envs s = Inr s' \<and> nextFrameIndex s' = nextFrameIndex s" by auto }
qed

text \<open>
  On the sample Gif of two frames, with the index on the last frame: one replacement
  goes to 0, two replacements come back to the last frame.
\<close>

theorem C2_frame_index_cyclic_witness:
  "playing (map (frameResources (dims frameA)) sampleGif) samplePlaying
   \<and> nextFrameIndex samplePlaying = length (map (frameResources (dims frameA)) sampleGif) - 1
   \<and> length [tick 100 True, tick 150 False]
        = length (map (frameResources (dims frameA)) sampleGif)
   \<and> (\<exists>s'. replaceCurrentFrame (tick 100 True) samplePlaying = Inr s'
          \<and> nextFrameIndex s' = 0)
   \<and> (\<exists>s'. replaceFrames [tick 100 True, tick 150 False] samplePlaying = Inr s'
          \<and> nextFrameIndex s' = 1)"
proof -
  let ?fs = "map (frameResources (dims frameA)) sampleGif"
  have n: "nextFrameIndex samplePlaying = 1" by (simp add: samplePlaying_eq)
  have len: "length ?fs = 2" by (simp add: sampleGif_def)
  have l: "nextFrameIndex samplePlaying = length ?fs - 1" unfolding n len by simp
  have e: "length [tick 100 True, tick 150 False] = length ?fs" unfolding len by simp
  from C2_frame_index_cyclic [OF playing_samplePlaying,
         of "tick 100 True" "[tick 100 True, tick 150 False]"] l e
  have "(\<exists>s'. replaceCurrentFrame (tick 100 True) samplePlaying = Inr s'
            \<and> nextFrameIndex s' = 0)
      \<and> (\<exists>s'. replaceFrames [tick 100 True, tick 150 False] samplePlaying = Inr s'
            \<and> nextFrameIndex s' = nextFrameIndex samplePlaying)"
    by blast
  with playing_samplePlaying l e show ?thesis unfolding n by blast
qed

section \<open>The placement transform\<close>




section \<open>Readiness\<close>

lemma replaceCurrentFrame_readyOnce:
  assumes "playing fs s" and "readyOnce s"
  shows "\<exists>s'. replaceCurrentFrame env s = Inr s' \<and> playing fs s' \<and> readyOnce s'
            \<and> (isReady s \<longrightarrow> isReady s') \<and> onLoad s' = onLoad s"
proof -
  let ?s1 = "s\<lparr>currentFrame := Some (fs ! nextFrameIndex s)\<rparr>"
  have r1: "readyOnce ?s1" using assms(2) by (simp add: readyOnce_def)
  from replaceCurrentFrame_playing_eq [OF assms(1), of env]
  obtain s2 where d: "drawPatch env ?s1 = Inr s2"
    and r: "replaceCurrentFrame env s
              = Inr (s2\<lparr>previousDate := Some (nowRecord env),
                         nextFrameIndex := (nextFrameIndex s + 1) mod length fs\<rparr>)"
    by blast
  from drawPatch_returns [of ?s1 "fs ! nextFrameIndex s", OF _ r1, of env] d
  have r2: "readyOnce s2" and m2: "isReady s \<longrightarrow> isReady s2" and o2: "onLoad s2 = onLoad s"
    by auto
  from replaceCurrentFrame_playing [OF assms(1), of env] r
  have p: "playing fs (s2\<lparr>previousDate := Some (nowRecord env),
                         nextFrameIndex := (nextFrameIndex s + 1) mod length fs\<rparr>)"
    by auto
  show ?thesis
    unfolding r using p r2 m2 o2 by (simp add: readyOnce_def)
qed

lemma renderFrame_readyOnce:
  assumes "playing fs s" and "readyOnce s"
  shows "\<exists>s'. renderFrame env s = Inr s' \<and> playing fs s' \<and> readyOnce s'
            \<and> (isReady s \<longrightarrow> isReady s') \<and> onLoad s' = onLoad s"
  using replaceCurrentFrame_readyOnce [OF assms, of env] assms
  by (simp add: renderFrame_def)

lemma renderLoop_readyOnce:
  "playing fs s \<Longrightarrow> readyOnce s \<Longrightarrow>
     \<exists>s'. renderLoop envs s = Inr s' \<and> playing fs s' \<and> readyOnce s'
        \<and> (isReady s \<longrightarrow> isReady s') \<and> onLoad s' = onLoad s"
proof (induction envs arbitrary: s)
  case Nil
  then show ?case by simp
next
  case (Cons env envs)
  from renderFrame_readyOnce [OF Cons.prems, of env]
  obtain s1 where a: "renderFrame env s = Inr s1" and b: "playing fs s1" and c: "readyOnce s1"
    and d: "isReady s \<longrightarrow> isReady s1" and e: "onLoad s1 = onLoad s" by blast
  from Cons.IH [OF b c] a d e show ?case by auto
qed

text \<open>
  Claim C4. The readiness flag is false after the constructor and after the Gif has been
  loaded. After any number of runs of the render loop callback it is true exactly when
  a draw has been issued, and once true it stays true over all further runs. The
  \<open>onLoad\<close> callback, when one was given, has been invoked once if the flag is true
  and not at all if it is false, so it is invoked in the run that sets the flag and
  never again.
\<close>

theorem C4_ready_once:
  assumes "decoded \<noteq> []"
  shows "\<not> isReady (new_AnimatedGifTexture cb)
       \<and> (\<exists>s0. loadCallback decoded (new_AnimatedGifTexture cb) = Inr s0
             \<and> \<not> isReady s0 \<and> onLoadCalls s0 = 0
             \<and> (\<forall>envs. \<exists>s. renderLoop envs s0 = Inr s
                   \<and> (isReady s \<longleftrightarrow> drawLog s \<noteq> [])
                   \<and> onLoadCalls s = (if cb \<and> isReady s then 1 else 0)
                   \<and> (isReady s \<longrightarrow>
                        (\<forall>more. \<exists>s'. renderLoop more s = Inr s' \<and> isReady s'
                            \<and> onLoadCalls s' = onLoadCalls s))))"
proof -
  from assms obtain first rest where dec: "decoded = first # rest" by (cases decoded) auto
  let ?new = "new_AnimatedGifTexture cb"
  let ?fs = "map (frameResources (dims first)) decoded"
  obtain s0 where l: "loadCallback decoded ?new = Inr s0"
    and s0: "s0 = ?new\<lparr>frames := Some ?fs,
              renderTarget := Some (createRenderTargetTexture (dims first)),
              released := released ?new @ [ReleasePlaceholder],
              texWidth := width (dims first),
              texHeight := height (dims first),
              isReady := False,
              renderLoopRegistered := True\<rparr>"
    unfolding dec loadCallback_nonempty by simp
  have p0: "playing ?fs s0" and r0: "readyOnce s0" and n0: "\<not> isReady s0"
    and c0: "onLoadCalls s0 = 0" and o0: "onLoad s0 = cb"
    unfolding s0 by (simp_all add: playing_def readyOnce_def new_AnimatedGifTexture_def dec)
  have later: "\<exists>s. renderLoop envs s0 = Inr s
                   \<and> (isReady s \<longleftrightarrow> drawLog s \<noteq> [])
                   \<and> onLoadCalls s = (if cb \<and> isReady s then 1 else 0)
                   \<and> (isReady s \<longrightarrow>
                        (\<forall>more. \<exists>s'. renderLoop more s = Inr s' \<and> isReady s'
                            \<and> onLoadCalls s' = onLoadCalls s))" for envs
  proof -
    from renderLoop_readyOnce [OF p0 r0, of envs]
    obtain s where a: "renderLoop envs s0 = Inr s" and b: "playing ?fs s" and c: "readyOnce s"
      and e: "onLoad s = onLoad s0" by blast
    have "\<exists>s'. renderLoop more s = Inr s' \<and> isReady s' \<and> onLoadCalls s' = onLoadCalls s"
      if "isReady s" for more
    proof -
      from renderLoop_readyOnce [OF b c, of more] that
      obtain s' where a': "renderLoop more s = Inr s'" and c': "readyOnce s'"
        and i': "isReady s'" and e': "onLoad s' = onLoad s" by blast
      from c c' that i' e' have "onLoadCalls s' = onLoadCalls s" by (simp add: readyOnce_def)
      with a' i' show ?thesis by blast
    qed
    with a c e o0 show ?thesis by (auto simp add: readyOnce_def)
  qed
  have "\<not> isReady ?new" by (simp add: new_AnimatedGifTexture_def)
  with l n0 c0 later show ?thesis by blast
qed

text \<open>
  On the sample Gif with a callback: the effect is not compiled in the first run, the
  second run keeps the current frame, the third one draws; the flag is then set and
  the callback has run once.
\<close>

theorem C4_ready_once_witness:
  "sampleGif \<noteq> []
   \<and> (\<exists>s. renderLoop [tick 0 False, tick 16 True, tick 200 True] sampleLoaded = Inr s
          \<and> isReady s \<and> drawLog s \<noteq> [] \<and> onLoadCalls s = 1)"
proof -
  have ne: "sampleGif \<noteq> []" by (simp add: sampleGif_def)
  from C4_ready_once [OF ne, of True]
  obtain s0 where l: "loadCallback sampleGif (new_AnimatedGifTexture True) = Inr s0"
    and later: "\<forall>envs. \<exists>s. renderLoop envs s0 = Inr s
                   \<and> (isReady s \<longleftrightarrow> drawLog s \<noteq> [])
                   \<and> onLoadCalls s = (if True \<and> isReady s then 1 else 0)
                   \<and> (isReady s \<longrightarrow>
                        (\<forall>more. \<exists>s'. renderLoop more s = Inr s' \<and> isReady s'
                            \<and> onLoadCalls s' = onLoadCalls s))"
    by blast
  from l sampleLoaded_eq have s0: "s0 = sampleLoaded" by simp
  from later obtain s
    where a: "renderLoop [tick 0 False, tick 16 True, tick 200 True] s0 = Inr s"
      and b: "isReady s \<longleftrightarrow> drawLog s \<noteq> []"
      and c: "onLoadCalls s = (if True \<and> isReady s then 1 else 0)"
    by blast
  have "isReady (state_of (renderLoop [tick 0 False, tick 16 True, tick 200 True] sampleLoaded))"
    by (simp add: sample_defs run_defs delay_frameResources frameA_def frameB_def)
  with a have i: "isReady s" unfolding s0 by (simp add: state_of_def)
  with b c have "drawLog s \<noteq> []" and "onLoadCalls s = 1" by simp_all
  with ne a i show ?thesis unfolding s0 by blast
qed

section \<open>The draw of a patch\<close>

text \<open>
  A fragment is generated only where the vertex shader takes a point of the quad, and
  \<open>vUV\<close> is that point.
\<close>

lemma quad_uv_vertexShader:
  assumes "quad_uv world c = Some vUV"
  shows "vertexShader world vUV = c"
proof -
  obtain a0 a1 a2 a3 a4 a5 a6 a7 a8 where w: "world = ((a0, a1, a2), (a3, a4, a5), (a6, a7, a8))"
    by (metis prod_cases3)
  obtain cx cy where c: "c = (cx, cy)" by (cases c)
  define det where "det = a0 * a4 - a1 * a3"
  define wx where "wx = (cx + 1) / 2 - a2"
  define wy where "wy = (cy + 1) / 2 - a5"
  from assms have nz: "det \<noteq> 0"
    and uv: "vUV = ((wx * a4 - wy * a1) / det, (wy * a0 - wx * a3) / det)"
    unfolding w c det_def wx_def wy_def
    by (auto simp add: quad_uv_def Let_def split: if_splits)
  have "(wx * a4 - wy * a1) / det * a0 + (wy * a0 - wx * a3) / det * a1
          = ((wx * a4 - wy * a1) * a0 + (wy * a0 - wx * a3) * a1) / det"
    by (simp add: add_divide_distrib)
  also have "(wx * a4 - wy * a1) * a0 + (wy * a0 - wx * a3) * a1 = wx * det"
    by (simp add: det_def algebra_simps)
  finally have x: "(wx * a4 - wy * a1) / det * a0 + (wy * a0 - wx * a3) / det * a1 = wx"
    using nz by simp
  have "(wx * a4 - wy * a1) / det * a3 + (wy * a0 - wx * a3) / det * a4
          = ((wx * a4 - wy * a1) * a3 + (wy * a0 - wx * a3) * a4) / det"
    by (simp add: add_divide_distrib)
  also have "(wx * a4 - wy * a1) * a3 + (wy * a0 - wx * a3) * a4 = wy * det"
    by (simp add: det_def algebra_simps)
  finally have y: "(wx * a4 - wy * a1) / det * a3 + (wy * a0 - wx * a3) / det * a4 = wy"
    using nz by simp
  have "vertexShader world vUV
          = (((wx * a4 - wy * a1) / det * a0 + (wy * a0 - wx * a3) / det * a1 + 1 * a2) * 2 - 1,
             ((wx * a4 - wy * a1) / det * a3 + (wy * a0 - wx * a3) / det * a4 + 1 * a5) * 2 - 1)"
    unfolding w uv vertexShader_def by (simp only: prod.case)
  also have "\<dots> = ((wx + 1 * a2) * 2 - 1, (wy + 1 * a5) * 2 - 1)"
    unfolding x y ..
  also have "\<dots> = c"
    unfolding c wx_def wy_def by (simp add: field_simps)
  finally show ?thesis .
qed










text \<open>
  Every texture that the load callback and the render loop produce is of that kind, with
  the size of the first frame as canvas.
\<close>

lemma replaceCurrentFrame_onCanvas:
  assumes "onCanvas canvas decoded s"
  shows "\<exists>s'. replaceCurrentFrame env s = Inr s' \<and> onCanvas canvas decoded s'"
proof -
  let ?fs = "map (frameResources canvas) decoded"
  from assms have p: "playing ?fs s" by (simp add: onCanvas_def)
  then have lt: "nextFrameIndex s < length decoded" by (simp add: playing_def)
  let ?g = "?fs ! nextFrameIndex s"
  let ?s1 = "s\<lparr>currentFrame := Some ?g\<rparr>"
  from replaceCurrentFrame_playing_eq [OF p, of env]
  obtain s2 where d: "drawPatch env ?s1 = Inr s2"
    and r: "replaceCurrentFrame env s
              = Inr (s2\<lparr>previousDate := Some (nowRecord env),
                         nextFrameIndex := (nextFrameIndex s + 1) mod length ?fs\<rparr>)"
    by blast
  from replaceCurrentFrame_playing [OF p, of env] r
  have p': "playing ?fs (s2\<lparr>previousDate := Some (nowRecord env),
                         nextFrameIndex := (nextFrameIndex s + 1) mod length ?fs\<rparr>)"
    by auto
  have g: "?g \<in> frameResources canvas ` set decoded"
    using lt by simp
  from assms obtain rt where t: "renderTarget s = Some rt"
    and w: "rt_width rt = width canvas" and h: "rt_height rt = height canvas"
    by (auto simp add: onCanvas_def split: option.splits)
  from d t w h have "\<exists>rt2. renderTarget s2 = Some rt2 \<and> rt_width rt2 = width canvas
      \<and> rt_height rt2 = height canvas \<and> currentFrame s2 = Some ?g"
    by (auto simp add: drawPatch_def Let_def render_def split: if_splits)
  with g have
    "(case renderTarget s2 of
            None \<Rightarrow> False
          | Some rt \<Rightarrow> rt_width rt = width canvas \<and> rt_height rt = height canvas)
      \<and> (case currentFrame s2 of
            None \<Rightarrow> True
          | Some g \<Rightarrow> g \<in> frameResources canvas ` set decoded)"
    by auto
  with p' show ?thesis unfolding r by (simp add: onCanvas_def)
qed

lemma renderLoop_onCanvas:
  "onCanvas canvas decoded s \<Longrightarrow>
     \<exists>s'. renderLoop envs s = Inr s' \<and> onCanvas canvas decoded s'"
proof (induction envs arbitrary: s)
  case Nil
  then show ?case by simp
next
  case (Cons env envs)
  have "\<exists>s1. renderFrame env s = Inr s1 \<and> onCanvas canvas decoded s1"
    using replaceCurrentFrame_onCanvas [OF Cons.prems, of env] Cons.prems
    by (cases "keepCurrentFrame env s") (simp_all add: renderFrame_def)
  then obtain s1 where a: "renderFrame env s = Inr s1" and b: "onCanvas canvas decoded s1"
    by blast
  from Cons.IH [OF b] a show ?case by auto
qed

lemma loadCallback_onCanvas:
  "\<exists>s. loadCallback (first # rest) (new_AnimatedGifTexture cb) = Inr s
      \<and> onCanvas (dims first) (first # rest) s"
  by (simp add: loadCallback_nonempty onCanvas_def playing_def new_AnimatedGifTexture_def
        createRenderTargetTexture_def)



section \<open>A draw skipped while the effect is not compiled\<close>

text \<open>
  Claim C6, on the sample Gif. The effect is not compiled at the first run of the render
  loop callback, at time 0. That run draws nothing, and still it makes the first frame
  current, records the time and moves the frame index to the second frame. The run at
  time 16, with the effect compiled, keeps the current frame, and the run at time 100
  draws the second frame: the first frame has not been drawn.
\<close>

theorem C6_effect_not_ready_skips_frame:
  "renderFrame (tick 0 False) sampleLoaded
     = Inr (sampleLoaded\<lparr>currentFrame := Some (frameResources (dims frameA) frameA),
                         previousDate := Some 0, nextFrameIndex := 1\<rparr>)
   \<and> renderFrame (tick 0 False) sampleLoaded \<noteq> Inr sampleLoaded
   \<and> drawLog (state_of (renderLoop [tick 0 False, tick 16 True] sampleLoaded)) = []
   \<and> drawLog (state_of (renderLoop [tick 0 False, tick 16 True, tick 100 True] sampleLoaded))
       = [frameResources (dims frameA) frameB]"
proof -
  have a: "renderFrame (tick 0 False) sampleLoaded
     = Inr (sampleLoaded\<lparr>currentFrame := Some (frameResources (dims frameA) frameA),
                         previousDate := Some 0, nextFrameIndex := 1\<rparr>)"
    by (simp add: sample_defs run_defs)
  have "nextFrameIndex sampleLoaded = 0" by (simp add: sample_defs)
  then have "sampleLoaded\<lparr>currentFrame := Some (frameResources (dims frameA) frameA),
                         previousDate := Some 0, nextFrameIndex := 1\<rparr> \<noteq> sampleLoaded"
    by (metis AnimatedGifTexture.select_convs(5) AnimatedGifTexture.surjective
          AnimatedGifTexture.update_convs(5) zero_neq_one)
  with a have b: "renderFrame (tick 0 False) sampleLoaded \<noteq> Inr sampleLoaded" by simp
  have c: "drawLog (state_of (renderLoop [tick 0 False, tick 16 True] sampleLoaded)) = []"
    by (simp add: sample_defs run_defs delay_frameResources frameA_def frameB_def)
  have d: "drawLog (state_of (renderLoop [tick 0 False, tick 16 True, tick 100 True]
                               sampleLoaded))
       = [frameResources (dims frameA) frameB]"
    by (simp add: sample_defs run_defs delay_frameResources frameA_def frameB_def)
  from a b c d show ?thesis by blast
qed

section \<open>The first run of the render loop callback\<close>




section \<open>A Gif without frames\<close>

text \<open>
  Claim C7, as the code has it. When the decoded sequence is empty the constructor has
  returned a texture all the same, and the load callback throws the \<open>TypeError\<close> of
  reading \<open>dims\<close> of the missing first frame. No render target is made and the
  render loop callback is not registered: the texture stays the 1 by 1 placeholder, not
  ready.
\<close>

theorem C7_empty_sequence_stalls:
  "loadCallback [] (new_AnimatedGifTexture cb)
     = Inl (UndefinedRead, (new_AnimatedGifTexture cb)\<lparr>frames := Some []\<rparr>)
   \<and> \<not> isReady (state_of (loadCallback [] (new_AnimatedGifTexture cb)))
   \<and> \<not> renderLoopRegistered (state_of (loadCallback [] (new_AnimatedGifTexture cb)))
   \<and> renderTarget (state_of (loadCallback [] (new_AnimatedGifTexture cb))) = None
   \<and> texWidth (state_of (loadCallback [] (new_AnimatedGifTexture cb))) = 1
   \<and> texHeight (state_of (loadCallback [] (new_AnimatedGifTexture cb))) = 1"
  by (simp add: loadCallback_def createGifResources_def state_of_def new_AnimatedGifTexture_def)

text \<open>
  The claim C7 as it is stated fails on the empty sequence: the constructor yields a
  texture that is not ready, and the failure of the load callback is the
  \<open>TypeError\<close>, which leaves that texture as it was but for the empty list of frames.
\<close>

theorem C7_empty_sequence_counterexample:
  "isReady (new_AnimatedGifTexture True) = False
   \<and> loadCallback [] (new_AnimatedGifTexture True)
       = Inl (UndefinedRead,
              \<lparr>onLoad = True, onLoadCalls = 0, frames = Some [], currentFrame = None,
               nextFrameIndex = 0, previousDate = None, isReady = False,
               texWidth = 1, texHeight = 1, renderTarget = None,
               renderLoopRegistered = False, drawLog = [], released = []\<rparr>)"
  by (simp add: loadCallback_def createGifResources_def new_AnimatedGifTexture_def)

section \<open>Disposal\<close>

text \<open>
  Claim C8, as the code has it. On a texture whose Gif has been loaded, \<open>dispose\<close>
  returns, and it issues its calls in this order: the render loop callback is
  deregistered, the effect wrapper and the effect renderer are disposed, the texture of
  every frame is disposed, in the order of the frames, and at last the render target and
  the base texture are disposed.
\<close>

theorem C8_dispose_order:
  assumes "frames s = Some fs" and "renderTarget s = Some rt"
  shows "\<exists>s'. dispose s = Inr s' \<and> \<not> renderLoopRegistered s'
           \<and> released s' = released s
                @ [StopRenderLoop, DisposeEffectWrapper, DisposeEffectRenderer]
                @ map DisposePatchTexture [0..<length fs]
                @ [DisposeRenderTarget, DisposeBaseTexture]"
  using assms by (simp add: dispose_def Let_def)

theorem C8_dispose_order_witness:
  "frames sampleLoaded = Some (map (frameResources (dims frameA)) sampleGif)
   \<and> renderTarget sampleLoaded = Some (createRenderTargetTexture (dims frameA))
   \<and> (\<exists>s'. dispose sampleLoaded = Inr s' \<and> \<not> renderLoopRegistered s'
          \<and> released s' = [ReleasePlaceholder, StopRenderLoop, DisposeEffectWrapper,
                DisposeEffectRenderer, DisposePatchTexture 0, DisposePatchTexture 1,
                DisposeRenderTarget, DisposeBaseTexture])"
proof -
  have f: "frames sampleLoaded = Some (map (frameResources (dims frameA)) sampleGif)"
    and r: "renderTarget sampleLoaded = Some (createRenderTargetTexture (dims frameA))"
    and l: "released sampleLoaded = [ReleasePlaceholder]"
    by (simp_all add: sample_defs)
  have u: "[0..<length (map (frameResources (dims frameA)) sampleGif)] = [0, 1]"
    by (simp add: sampleGif_def upt_rec)
  from C8_dispose_order [OF f r] show ?thesis
    unfolding l u using f r by simp
qed

text \<open>
  The claim C8 as it is stated fails on the sample Gif: the effect wrapper and the
  effect renderer are disposed before the textures of the frames, not after them.
\<close>

theorem C8_dispose_order_counterexample:
  "released (state_of (dispose sampleLoaded))
     = [ReleasePlaceholder, StopRenderLoop, DisposeEffectWrapper, DisposeEffectRenderer,
        DisposePatchTexture 0, DisposePatchTexture 1, DisposeRenderTarget, DisposeBaseTexture]
   \<and> issuedBefore DisposeEffectWrapper (DisposePatchTexture 0)
        (released (state_of (dispose sampleLoaded)))
   \<and> issuedBefore DisposeEffectRenderer (DisposePatchTexture 1)
        (released (state_of (dispose sampleLoaded)))
   \<and> \<not> issuedBefore (DisposePatchTexture 0) DisposeEffectWrapper
        (released (state_of (dispose sampleLoaded)))"
  by (simp add: sample_defs dispose_def Let_def upt_rec issuedBefore_def)

text \<open>
  Claim C9, as the code has it. A call of \<open>dispose\<close> on a texture whose Gif is still
  loading does not cancel the load: when the file arrives, the load callback does not
  drop the decoded frames. It stores them with their textures and matrices, makes the
  render target and registers the render loop callback, on a texture whose effect
  wrapper and effect renderer have been disposed.
\<close>

theorem C9_load_after_dispose:
  "\<exists>s'. loadCallback (first # rest) (state_of (dispose (new_AnimatedGifTexture cb))) = Inr s'
      \<and> frames s' = Some (map (frameResources (dims first)) (first # rest))
      \<and> renderTarget s' = Some (createRenderTargetTexture (dims first))
      \<and> renderLoopRegistered s'
      \<and> released s' = [StopRenderLoop, DisposeEffectWrapper, DisposeEffectRenderer,
                        ReleasePlaceholder]"
  by (simp add: loadCallback_nonempty dispose_def Let_def new_AnimatedGifTexture_def
        state_of_def)

text \<open>
  The claim C9 as it is stated fails on a texture that has just been constructed:
  \<open>dispose\<close> throws on the frames that are still \<open>null\<close>, and the sample Gif that
  arrives afterwards is not dropped, it starts the render loop.
\<close>

theorem C9_dispose_before_load_counterexample:
  "dispose (new_AnimatedGifTexture True)
     = Inl (NotIterable,
            (new_AnimatedGifTexture True)
              \<lparr>released := [StopRenderLoop, DisposeEffectWrapper, DisposeEffectRenderer]\<rparr>)
   \<and> renderLoopRegistered
       (state_of (loadCallback sampleGif (state_of (dispose (new_AnimatedGifTexture True)))))
   \<and> frames (state_of (loadCallback sampleGif (state_of (dispose (new_AnimatedGifTexture True)))))
       = Some (map (frameResources (dims frameA)) sampleGif)
   \<and> released (state_of (loadCallback sampleGif (state_of (dispose (new_AnimatedGifTexture True)))))
       = [StopRenderLoop, DisposeEffectWrapper, DisposeEffectRenderer, ReleasePlaceholder]"
  by (simp add: dispose_def Let_def new_AnimatedGifTexture_def state_of_def sampleGif_def
        loadCallback_nonempty)

end
